theory Spec2Isabelle
  imports Complex_Main
begin

section \<open>JavaScript numbers\<close>

text \<open>
  The models compute with JavaScript numbers. A number is represented by the real it
  denotes, or by one of the three values that are not finite: \<open>Infinity\<close>,
  \<open>-Infinity\<close> and \<open>NaN\<close>. The arithmetic below follows IEEE 754 on these four
  kinds of value (what \<open>0/0\<close>, \<open>x/0\<close>, \<open>Infinity - Infinity\<close> and comparisons with
  \<open>NaN\<close> give). Two things are idealised: finite results are exact (no rounding to
  53 bits and no overflow), and the two zeros are one value, taken as \<open>+0\<close>.
\<close>

datatype jsnum = Num real | PosInf | NegInf | NaN

fun isFinite :: "jsnum \<Rightarrow> bool" where
  "isFinite (Num a) = True"
| "isFinite x = False"

fun isNaN :: "jsnum \<Rightarrow> bool" where
  "isNaN NaN = True"
| "isNaN x = False"

text \<open>The infinity with the sign of \<open>s\<close>; \<open>NaN\<close> when \<open>s\<close> is zero.\<close>

definition signed_inf :: "real \<Rightarrow> jsnum" where
  "signed_inf s = (if s = 0 then NaN else if 0 < s then PosInf else NegInf)"

fun jneg :: "jsnum \<Rightarrow> jsnum" where
  "jneg (Num a) = Num (- a)"
| "jneg PosInf = NegInf"
| "jneg NegInf = PosInf"
| "jneg NaN = NaN"

fun jadd :: "jsnum \<Rightarrow> jsnum \<Rightarrow> jsnum" where
  "jadd (Num a) (Num b) = Num (a + b)"
| "jadd NaN y = NaN"
| "jadd x NaN = NaN"
| "jadd PosInf NegInf = NaN"
| "jadd NegInf PosInf = NaN"
| "jadd PosInf y = PosInf"
| "jadd x PosInf = PosInf"
| "jadd NegInf y = NegInf"
| "jadd x NegInf = NegInf"

definition jsub :: "jsnum \<Rightarrow> jsnum \<Rightarrow> jsnum" where
  "jsub x y = jadd x (jneg y)"

fun jmul :: "jsnum \<Rightarrow> jsnum \<Rightarrow> jsnum" where
  "jmul (Num a) (Num b) = Num (a * b)"
| "jmul NaN y = NaN"
| "jmul x NaN = NaN"
| "jmul PosInf (Num b) = signed_inf b"
| "jmul (Num a) PosInf = signed_inf a"
| "jmul NegInf (Num b) = signed_inf (- b)"
| "jmul (Num a) NegInf = signed_inf (- a)"
| "jmul PosInf PosInf = PosInf"
| "jmul PosInf NegInf = NegInf"
| "jmul NegInf PosInf = NegInf"
| "jmul NegInf NegInf = PosInf"

fun jdiv :: "jsnum \<Rightarrow> jsnum \<Rightarrow> jsnum" where
  "jdiv (Num a) (Num b) = (if b = 0 then signed_inf a else Num (a / b))"
| "jdiv NaN y = NaN"
| "jdiv x NaN = NaN"
| "jdiv (Num a) PosInf = Num 0"
| "jdiv (Num a) NegInf = Num 0"
| "jdiv PosInf (Num b) = (if 0 \<le> b then PosInf else NegInf)"
| "jdiv NegInf (Num b) = (if 0 \<le> b then NegInf else PosInf)"
| "jdiv PosInf y = NaN"
| "jdiv NegInf y = NaN"

text \<open>The comparisons \<open><=\<close> and \<open><\<close>: false as soon as one side is \<open>NaN\<close>.\<close>

fun jle :: "jsnum \<Rightarrow> jsnum \<Rightarrow> bool" where
  "jle (Num a) (Num b) = (a \<le> b)"
| "jle NaN y = False"
| "jle x NaN = False"
| "jle NegInf y = True"
| "jle x PosInf = True"
| "jle x y = False"

fun jlt :: "jsnum \<Rightarrow> jsnum \<Rightarrow> bool" where
  "jlt (Num a) (Num b) = (a < b)"
| "jlt NaN y = False"
| "jlt x NaN = False"
| "jlt PosInf y = False"
| "jlt x NegInf = False"
| "jlt x y = True"

text \<open>\<open>Math.max\<close> of two arguments: \<open>NaN\<close> when either is.\<close>

definition jmax :: "jsnum \<Rightarrow> jsnum \<Rightarrow> jsnum" where
  "jmax x y = (if isNaN x \<or> isNaN y then NaN else if jle x y then y else x)"

text \<open>\<open>Math.round\<close>: the nearest integer, a tie going up.\<close>

fun jround :: "jsnum \<Rightarrow> jsnum" where
  "jround (Num a) = Num (of_int \<lfloor>a + 1 / 2\<rfloor>)"
| "jround x = x"

text \<open>The sum of a list of numbers, as the spec writes \<open>\<Sigma>\<close>.\<close>

definition jsum :: "jsnum list \<Rightarrow> jsnum" where
  "jsum xs = foldr jadd xs (Num 0)"

section \<open>CostModel\<close>

record direct_cost =
  dc_name :: string
  dc_amount :: jsnum
  dc_unit :: string

record indirect_cost =
  ic_name :: string
  ic_amount :: jsnum
  ic_period :: string

record time_cost =
  tc_name :: string
  tc_rate :: jsnum
  tc_hours :: jsnum

record cost_model =
  businessType :: string
  directCosts :: "direct_cost list"
  indirectCosts :: "indirect_cost list"
  timeCosts :: "time_cost list"
  targetMargin :: jsnum
  expectedVolume :: jsnum

text \<open>
  The constructor: no costs, a target margin of 30 percent, a volume of 100. The
  functions that add a cost or set a field take the number that \<open>Number(...)\<close> makes
  of their argument, which may be \<open>NaN\<close> or infinite.
\<close>

definition newCostModel :: "string \<Rightarrow> cost_model" where
  "newCostModel bt =
     \<lparr>businessType = bt, directCosts = [], indirectCosts = [], timeCosts = [],
      targetMargin = Num (3 / 10), expectedVolume = Num 100\<rparr>"

definition addDirectCost :: "string \<Rightarrow> jsnum \<Rightarrow> string \<Rightarrow> cost_model \<Rightarrow> cost_model" where
  "addDirectCost n a u m =
     m\<lparr>directCosts := directCosts m @ [\<lparr>dc_name = n, dc_amount = a, dc_unit = u\<rparr>]\<rparr>"

definition addIndirectCost :: "string \<Rightarrow> jsnum \<Rightarrow> string \<Rightarrow> cost_model \<Rightarrow> cost_model" where
  "addIndirectCost n a p m =
     m\<lparr>indirectCosts := indirectCosts m @ [\<lparr>ic_name = n, ic_amount = a, ic_period = p\<rparr>]\<rparr>"

definition addTimeCost :: "string \<Rightarrow> jsnum \<Rightarrow> jsnum \<Rightarrow> cost_model \<Rightarrow> cost_model" where
  "addTimeCost n r h m =
     m\<lparr>timeCosts := timeCosts m @ [\<lparr>tc_name = n, tc_rate = r, tc_hours = h\<rparr>]\<rparr>"

definition setTargetMargin :: "jsnum \<Rightarrow> cost_model \<Rightarrow> cost_model" where
  "setTargetMargin margin m = m\<lparr>targetMargin := margin\<rparr>"

definition setExpectedVolume :: "jsnum \<Rightarrow> cost_model \<Rightarrow> cost_model" where
  "setExpectedVolume volume m = m\<lparr>expectedVolume := volume\<rparr>"

text \<open>Each \<open>reduce\<close> of the source is a left fold from \<open>0\<close>.\<close>

definition calculateTotalDirectCost :: "cost_model \<Rightarrow> jsnum" where
  "calculateTotalDirectCost m =
     foldl (\<lambda>total cost. jadd total (dc_amount cost)) (Num 0) (directCosts m)"

definition calculateTotalTimeCost :: "cost_model \<Rightarrow> jsnum" where
  "calculateTotalTimeCost m =
     foldl (\<lambda>total cost. jadd total (jmul (tc_rate cost) (tc_hours cost))) (Num 0)
       (timeCosts m)"

definition monthlyCost :: "indirect_cost \<Rightarrow> jsnum" where
  "monthlyCost cost =
     (if ic_period cost = ''year'' then jdiv (ic_amount cost) (Num 12) else ic_amount cost)"

definition monthlyIndirectCosts :: "cost_model \<Rightarrow> jsnum" where
  "monthlyIndirectCosts m =
     foldl (\<lambda>total cost. jadd total (monthlyCost cost)) (Num 0) (indirectCosts m)"

definition calculateAllocatedIndirectCost :: "cost_model \<Rightarrow> jsnum" where
  "calculateAllocatedIndirectCost m = jdiv (monthlyIndirectCosts m) (expectedVolume m)"

definition calculateTotalCostPerUnit :: "cost_model \<Rightarrow> jsnum" where
  "calculateTotalCostPerUnit m =
     (let directCost = calculateTotalDirectCost m;
          timeCost = calculateTotalTimeCost m;
          indirectCost = calculateAllocatedIndirectCost m
      in jadd (jadd directCost timeCost) indirectCost)"

definition calculateMinimumViablePrice :: "cost_model \<Rightarrow> jsnum" where
  "calculateMinimumViablePrice m =
     (let totalCost = calculateTotalCostPerUnit m
      in jdiv totalCost (jsub (Num 1) (targetMargin m)))"

definition calculateBreakEvenPrice :: "cost_model \<Rightarrow> jsnum" where
  "calculateBreakEvenPrice m = calculateTotalCostPerUnit m"

definition calculateBreakEvenVolume :: "cost_model \<Rightarrow> jsnum \<Rightarrow> jsnum" where
  "calculateBreakEvenVolume m price =
     (let totalCost = calculateTotalCostPerUnit m
      in if jle price totalCost then PosInf
         else
           (let contributionMargin =
                  jsub price (jadd (calculateTotalDirectCost m) (calculateTotalTimeCost m))
            in jdiv (monthlyIndirectCosts m) contributionMargin))"

definition calculateMarginAtPrice :: "cost_model \<Rightarrow> jsnum \<Rightarrow> jsnum" where
  "calculateMarginAtPrice m price =
     (let totalCost = calculateTotalCostPerUnit m
      in jdiv (jsub price totalCost) price)"

text \<open>
  A cost model all of whose numbers are finite, as the data model has them: the
  amounts, rates and hours of the three lists, the target margin and the volume.
\<close>

definition finiteCosts :: "cost_model \<Rightarrow> bool" where
  "finiteCosts m \<longleftrightarrow>
     list_all (\<lambda>c. isFinite (dc_amount c)) (directCosts m) \<and>
     list_all (\<lambda>c. isFinite (ic_amount c)) (indirectCosts m) \<and>
     list_all (\<lambda>c. isFinite (tc_rate c) \<and> isFinite (tc_hours c)) (timeCosts m) \<and>
     isFinite (targetMargin m) \<and> isFinite (expectedVolume m)"

text \<open>
  The cost model the repository's own test builds: materials of 50, office space of
  2000 a month, a developer at 75 for 8 hours, a margin of 30 percent, a volume of 20.
\<close>

definition testCostModel :: cost_model where
  "testCostModel =
     setExpectedVolume (Num 20) (setTargetMargin (Num (3 / 10))
       (addTimeCost ''Developer'' (Num 75) (Num 8)
         (addIndirectCost ''Office Space'' (Num 2000) ''month''
           (addDirectCost ''Materials'' (Num 50) ''unit'' (newCostModel ''service'')))))"

section \<open>CustomerSegmentModel\<close>

text \<open>Decimal digits of a natural number, for the identifiers \<open>seg_1\<close>, \<open>seg_2\<close>, ...\<close>

definition digit_char :: "nat \<Rightarrow> char" where
  "digit_char d = ''0123456789'' ! d"

function string_of_nat :: "nat \<Rightarrow> string" where
  "string_of_nat n =
     (if n < 10 then [digit_char n]
      else string_of_nat (n div 10) @ [digit_char (n mod 10)])"
  by pat_completeness auto
termination
  by (relation "measure id") auto

declare string_of_nat.simps [simp del]

record segment =
  seg_id :: string
  seg_name :: string
  seg_size :: jsnum
  seg_priceElasticity :: jsnum
  seg_description :: string

record customer_segment_model =
  segments :: "segment list"
  nextId :: nat

definition newCustomerSegmentModel :: customer_segment_model where
  "newCustomerSegmentModel = \<lparr>segments = [], nextId = 1\<rparr>"

text \<open>\<open>CustomerSegmentModel.addSegment\<close>: returns the new identifier and the new state.\<close>

definition CustomerSegmentModel_addSegment ::
  "string \<Rightarrow> jsnum \<Rightarrow> jsnum \<Rightarrow> string \<Rightarrow> customer_segment_model
     \<Rightarrow> string \<times> customer_segment_model" where
  "CustomerSegmentModel_addSegment name sz elasticity description csm =
     (let ident = ''seg_'' @ string_of_nat (nextId csm)
      in (ident,
          csm\<lparr>segments := segments csm @
                 [\<lparr>seg_id = ident, seg_name = name, seg_size = sz,
                   seg_priceElasticity = elasticity, seg_description = description\<rparr>],
              nextId := nextId csm + 1\<rparr>))"


section \<open>PricingModel\<close>

text \<open>
  The field \<open>marketPosition\<close> only ever holds one of three strings: the constructor
  sets \<open>mid-market\<close> and \<open>setMarketPosition\<close> stores nothing else. It is an
  enumeration; \<open>position_of_string\<close> is the test \<open>includes(position)\<close> on the list
  of the three names, together with the value it admits.
\<close>

datatype market_position = Budget | MidMarket | Premium

fun position_name :: "market_position \<Rightarrow> string" where
  "position_name Budget = ''budget''"
| "position_name MidMarket = ''mid-market''"
| "position_name Premium = ''premium''"

definition position_of_string :: "string \<Rightarrow> market_position option" where
  "position_of_string s =
     (if s = ''budget'' then Some Budget
      else if s = ''mid-market'' then Some MidMarket
      else if s = ''premium'' then Some Premium
      else None)"

record competitor =
  cp_name :: string
  cp_price :: jsnum
  cp_attributes :: "(string \<times> jsnum) list"
  cp_overallValue :: jsnum

record value_factor =
  vf_name :: string
  vf_importance :: jsnum
  vf_score :: jsnum

text \<open>
  A pricing model refers to the cost model it was built on; the record holds the state
  of that cost model at the time of the call.
\<close>

record pricing_model =
  costModel :: cost_model
  competitors :: "competitor list"
  valueFactors :: "value_factor list"
  customerSegmentModel :: customer_segment_model
  marketPosition :: market_position
  baseDemand :: jsnum

definition newPricingModel :: "cost_model \<Rightarrow> pricing_model" where
  "newPricingModel cm =
     \<lparr>costModel = cm, competitors = [], valueFactors = [],
      customerSegmentModel = newCustomerSegmentModel, marketPosition = MidMarket,
      baseDemand = Num 100\<rparr>"

definition calculateOverallValue :: "(string \<times> jsnum) list \<Rightarrow> jsnum" where
  "calculateOverallValue attributes =
     (if length attributes = 0 then Num 5
      else jdiv (foldl (\<lambda>sum v. jadd sum v) (Num 0) (map snd attributes))
             (Num (real (length attributes))))"

definition addCompetitor ::
  "string \<Rightarrow> jsnum \<Rightarrow> (string \<times> jsnum) list \<Rightarrow> pricing_model \<Rightarrow> pricing_model" where
  "addCompetitor name price attributes m =
     m\<lparr>competitors := competitors m @
          [\<lparr>cp_name = name, cp_price = price, cp_attributes = attributes,
            cp_overallValue = calculateOverallValue attributes\<rparr>]\<rparr>"

definition addValueFactor :: "string \<Rightarrow> jsnum \<Rightarrow> jsnum \<Rightarrow> pricing_model \<Rightarrow> pricing_model" where
  "addValueFactor name importance score m =
     m\<lparr>valueFactors := valueFactors m @
          [\<lparr>vf_name = name, vf_importance = importance, vf_score = score\<rparr>]\<rparr>"

text \<open>
  \<open>PricingModel.addSegment\<close>: the 1-10 scale is turned into an elasticity, and the
  segment is stored by the segment model.
\<close>

definition addSegment ::
  "string \<Rightarrow> jsnum \<Rightarrow> jsnum \<Rightarrow> string \<Rightarrow> pricing_model \<Rightarrow> string \<times> pricing_model" where
  "addSegment name sz priceElasticity description m =
     (let elasticity =
            jneg (jadd (jmul (jdiv priceElasticity (Num 10)) (Num (95 / 10))) (Num (5 / 10)));
          (ident, csm) =
            CustomerSegmentModel_addSegment name sz elasticity description
              (customerSegmentModel m)
      in (ident, m\<lparr>customerSegmentModel := csm\<rparr>))"

text \<open>
  A call either returns or throws; the state after it is given beside the outcome, so
  that what a throwing call leaves behind is explicit.
\<close>

datatype error = Error string

datatype 'a outcome = Returned 'a | Threw error

definition setMarketPosition :: "string \<Rightarrow> pricing_model \<Rightarrow> unit outcome \<times> pricing_model" where
  \<open>setMarketPosition position m =
     (case position_of_string position of
        Some p \<Rightarrow> (Returned (), m\<lparr>marketPosition := p\<rparr>)
      | None \<Rightarrow>
          (Threw (Error ''Market position must be "budget", "mid-market", or "premium"''), m))\<close>

text \<open>The three tables of position multipliers, one for each strategy.\<close>

fun costPlusMultipliers :: "market_position \<Rightarrow> jsnum" where
  "costPlusMultipliers Budget = Num (9 / 10)"
| "costPlusMultipliers MidMarket = Num 1"
| "costPlusMultipliers Premium = Num (12 / 10)"

fun competitorMultipliers :: "market_position \<Rightarrow> jsnum" where
  "competitorMultipliers Budget = Num (85 / 100)"
| "competitorMultipliers MidMarket = Num 1"
| "competitorMultipliers Premium = Num (125 / 100)"

fun valueMultipliers :: "market_position \<Rightarrow> jsnum" where
  "valueMultipliers Budget = Num (9 / 10)"
| "valueMultipliers MidMarket = Num 1"
| "valueMultipliers Premium = Num (115 / 100)"

definition calculateCostPlusPrice :: "pricing_model \<Rightarrow> jsnum \<Rightarrow> jsnum" where
  "calculateCostPlusPrice m marginMultiplier =
     (let baseMinimumPrice = calculateMinimumViablePrice (costModel m)
      in jmul (jmul baseMinimumPrice (costPlusMultipliers (marketPosition m)))
           marginMultiplier)"

definition calculateCompetitorIndexedPrice :: "pricing_model \<Rightarrow> jsnum" where
  "calculateCompetitorIndexedPrice m =
     (if length (competitors m) = 0 then calculateCostPlusPrice m (Num 1)
      else
        (let avgCompetitorPrice =
               jdiv (foldl (\<lambda>sum c. jadd sum (cp_price c)) (Num 0) (competitors m))
                 (Num (real (length (competitors m))));
             basePrice = jmul avgCompetitorPrice (competitorMultipliers (marketPosition m));
             minimumViablePrice = calculateMinimumViablePrice (costModel m)
         in jmax basePrice minimumViablePrice))"

definition calculateValueBasedPrice :: "pricing_model \<Rightarrow> jsnum" where
  "calculateValueBasedPrice m =
     (if length (competitors m) = 0 \<or> length (valueFactors m) = 0
      then calculateCostPlusPrice m (Num 1)
      else
        (let valueScore =
               jdiv
                 (foldl (\<lambda>sum f. jadd sum (jmul (vf_importance f) (vf_score f))) (Num 0)
                    (valueFactors m))
                 (foldl (\<lambda>sum f. jadd sum (vf_importance f)) (Num 0) (valueFactors m));
             avgCompetitorPrice =
               jdiv (foldl (\<lambda>sum c. jadd sum (cp_price c)) (Num 0) (competitors m))
                 (Num (real (length (competitors m))));
             avgCompetitorValue =
               jdiv (foldl (\<lambda>sum c. jadd sum (cp_overallValue c)) (Num 0) (competitors m))
                 (Num (real (length (competitors m))));
             marketValueToPrice = jdiv avgCompetitorValue avgCompetitorPrice;
             valueBasedPrice =
               jmul (jdiv valueScore marketValueToPrice) (valueMultipliers (marketPosition m));
             minimumViablePrice = calculateMinimumViablePrice (costModel m)
         in jmax valueBasedPrice minimumViablePrice))"

text \<open>
  The recommendation. Its explanation, a sentence built from the strategy, plays no part
  in any property below and is left out of the record.
\<close>

record recommendation =
  rec_price :: jsnum
  rec_confidenceLevel :: jsnum
  rec_margin :: jsnum
  rec_breakEvenVolume :: jsnum

text \<open>The price and the confidence level that the \<open>switch\<close> on the strategy assigns.\<close>

definition strategyPrice :: "pricing_model \<Rightarrow> string \<Rightarrow> jsnum" where
  "strategyPrice m strategy =
     (if strategy = ''cost-plus'' then calculateCostPlusPrice m (Num 1)
      else if strategy = ''competitor'' then calculateCompetitorIndexedPrice m
      else if strategy = ''value'' then calculateValueBasedPrice m
      else
        jadd
          (jadd (jmul (calculateCostPlusPrice m (Num 1)) (Num (4 / 10)))
             (jmul (calculateCompetitorIndexedPrice m) (Num (3 / 10))))
          (jmul (calculateValueBasedPrice m) (Num (3 / 10))))"

definition strategyConfidence :: "pricing_model \<Rightarrow> string \<Rightarrow> jsnum" where
  "strategyConfidence m strategy =
     (if strategy = ''cost-plus'' then Num (8 / 10)
      else if strategy = ''competitor''
        then (if length (competitors m) > 2 then Num (7 / 10) else Num (5 / 10))
      else if strategy = ''value''
        then (if length (competitors m) > 0 \<and> length (valueFactors m) > 2
              then Num (75 / 100) else Num (4 / 10))
      else Num (65 / 100))"

definition getPriceRecommendation :: "pricing_model \<Rightarrow> string \<Rightarrow> recommendation" where
  "getPriceRecommendation m strategy =
     (let price = strategyPrice m strategy;
          confidenceLevel = strategyConfidence m strategy
      in \<lparr>rec_price = jdiv (jround (jmul price (Num 100))) (Num 100),
          rec_confidenceLevel = confidenceLevel,
          rec_margin = calculateMarginAtPrice (costModel m) price,
          rec_breakEvenVolume = calculateBreakEvenVolume (costModel m) price\<rparr>)"

text \<open>The pricing model of the repository's test: two competitors, three value factors.\<close>

definition testPricingModel :: pricing_model where
  "testPricingModel =
     addValueFactor ''Features'' (Num 7) (Num 7)
       (addValueFactor ''Support'' (Num 6) (Num 8)
         (addValueFactor ''Quality'' (Num 8) (Num 9)
           (addCompetitor ''Competitor B'' (Num 1200) []
             (addCompetitor ''Competitor A'' (Num 1000) []
               (newPricingModel testCostModel)))))"


section \<open>Storage\<close>

text \<open>
  The values the storage functions pass to \<open>JSON.stringify\<close> and get from
  \<open>JSON.parse\<close>. An object is the list of its own properties in the order
  \<open>Object.entries\<close> gives them; its keys are distinct.
\<close>

datatype json =
  JNull | JBool bool | JNum real | JStr string | JArr "json list" | JObj "(string \<times> json) list"

text \<open>
  The strings kept in the backend and handed to \<open>importAllData\<close> are only ever read
  through \<open>JSON.parse\<close>. Such a string is represented by what \<open>JSON.parse\<close> makes of
  it: the value it denotes, or, for a text that is no JSON and makes \<open>JSON.parse\<close>
  throw, the text itself. \<open>JSON.stringify\<close> of a value, with or without indentation, is
  then a string denoting that value: parsing what was serialised gives the value back.
\<close>

datatype jstring = Json json | NotJson string

definition JSON_parse :: "jstring \<Rightarrow> json option" where
  "JSON_parse s = (case s of Json v \<Rightarrow> Some v | NotJson t \<Rightarrow> None)"

definition JSON_stringify :: "json \<Rightarrow> jstring" where
  "JSON_stringify v = Json v"

text \<open>
  \<open>Object.entries\<close>: throws a \<open>TypeError\<close> on \<open>null\<close> (the result \<open>None\<close>), finds no
  property in a boolean or a number, and indexes the characters of a string and the
  elements of an array.
\<close>

fun Object_entries :: "json \<Rightarrow> (string \<times> json) list option" where
  "Object_entries JNull = None"
| "Object_entries (JBool b) = Some []"
| "Object_entries (JNum n) = Some []"
| "Object_entries (JStr s) =
     Some (zip (map string_of_nat [0..<length s]) (map (\<lambda>c. JStr [c]) s))"
| "Object_entries (JArr xs) = Some (zip (map string_of_nat [0..<length xs]) xs)"
| "Object_entries (JObj kvs) = Some kvs"

definition STORAGE_KEYS :: "(string \<times> string) list" where
  "STORAGE_KEYS =
     [(''COST_ANALYSIS'', ''dpo_cost_analysis''),
      (''PRICING_STRATEGY'', ''dpo_pricing_strategy''),
      (''BUSINESS_PROFILE'', ''dpo_business_profile''),
      (''COMPETITORS'', ''dpo_competitors''),
      (''VALUE_FACTORS'', ''dpo_value_factors''),
      (''VALUE_PROPOSITION'', ''dpo_value_proposition''),
      (''VALUE_MAP'', ''dpo_value_map''),
      (''COMMUNICATION'', ''dpo_communication''),
      (''SETTINGS'', ''dpo_settings''),
      (''SCENARIOS'', ''dpo_scenarios'')]"

text \<open>
  \<open>STORAGE_KEYS\<close> is an object literal, so the lookup \<open>STORAGE_KEYS[key]\<close> also finds
  the members that every object inherits from \<open>Object.prototype\<close>. Each is listed with
  the string that stands for its value when the value is used as a storage key (the
  text of a built-in function under Node, \<open>[object Object]\<close> for the prototype).
\<close>

definition Object_prototype :: "(string \<times> string) list" where
  "Object_prototype =
     [(''constructor'', ''function Object() { [native code] }''),
      (''__defineGetter__'', ''function __defineGetter__() { [native code] }''),
      (''__defineSetter__'', ''function __defineSetter__() { [native code] }''),
      (''hasOwnProperty'', ''function hasOwnProperty() { [native code] }''),
      (''__lookupGetter__'', ''function __lookupGetter__() { [native code] }''),
      (''__lookupSetter__'', ''function __lookupSetter__() { [native code] }''),
      (''isPrototypeOf'', ''function isPrototypeOf() { [native code] }''),
      (''propertyIsEnumerable'', ''function propertyIsEnumerable() { [native code] }''),
      (''toString'', ''function toString() { [native code] }''),
      (''valueOf'', ''function valueOf() { [native code] }''),
      (''__proto__'', ''[object Object]''),
      (''toLocaleString'', ''function toLocaleString() { [native code] }'')]"

text \<open>
  \<open>STORAGE_KEYS[key]\<close>: \<open>None\<close> stands for \<open>undefined\<close>, the only falsy result; every
  other result is truthy and is given by the storage key it denotes.
\<close>

definition STORAGE_KEYS_get :: "string \<Rightarrow> string option" where
  "STORAGE_KEYS_get key =
     (case map_of STORAGE_KEYS key of
        Some storageKey \<Rightarrow> Some storageKey
      | None \<Rightarrow> map_of Object_prototype key)"

text \<open>
  The backend is the \<open>MockLocalStorage\<close> of the source: a store from keys to strings.
  Its \<open>getItem\<close> is \<open>this.store[key] || null\<close>, which answers \<open>null\<close> for a missing
  key and for the empty string alike.
\<close>

type_synonym storage = "string \<rightharpoonup> jstring"


definition setItem :: "string \<Rightarrow> jstring \<Rightarrow> storage \<Rightarrow> storage" where
  "setItem key v store = store(key \<mapsto> v)"

definition removeItem :: "string \<Rightarrow> storage \<Rightarrow> storage" where
  "removeItem key store = store(key := None)"

text \<open>
  The storage functions return their result and the store after the call. Nothing in
  \<open>saveToStorage\<close> throws on these values, so its \<open>catch\<close> is never entered.
\<close>

definition saveToStorage :: "string \<Rightarrow> json \<Rightarrow> storage \<Rightarrow> bool \<times> storage" where
  "saveToStorage key data store =
     (let serializedData = JSON_stringify data
      in (True, setItem key serializedData store))"


definition removeFromStorage :: "string \<Rightarrow> storage \<Rightarrow> bool \<times> storage" where
  "removeFromStorage key store = (True, removeItem key store)"



text \<open>The body of the \<open>forEach\<close> in \<open>importAllData\<close>, for one entry of the document.\<close>

definition importEntry :: "storage \<Rightarrow> string \<times> json \<Rightarrow> storage" where
  "importEntry store = (\<lambda>(key, data).
     (case STORAGE_KEYS_get key of
        Some storageKey \<Rightarrow>
          if data \<noteq> JNull then snd (saveToStorage storageKey data store) else store
      | None \<Rightarrow> store))"

text \<open>
  \<open>importAllData\<close>: a \<open>JSON.parse\<close> or \<open>Object.entries\<close> that throws is caught,
  before anything is written, and the result is \<open>false\<close>.
\<close>

definition importAllData :: "jstring \<Rightarrow> storage \<Rightarrow> bool \<times> storage" where
  "importAllData jsonData store =
     (case JSON_parse jsonData of
        None \<Rightarrow> (False, store)
      | Some importData \<Rightarrow>
          (case Object_entries importData of
             None \<Rightarrow> (False, store)
           | Some entries \<Rightarrow> (True, foldl importEntry store entries)))"


section \<open>Facts about the arithmetic\<close>

lemma jadd_commute: "jadd x y = jadd y x"
  by (cases x; cases y) simp_all

lemma jadd_assoc: "jadd (jadd x y) z = jadd x (jadd y z)"
  by (cases x; cases y; cases z) simp_all

lemma jadd_zero [simp]: "jadd (Num 0) x = x" "jadd x (Num 0) = x"
  by (cases x; simp)+

lemma jmul_commute: "jmul x y = jmul y x"
  by (cases x; cases y) (simp_all add: mult.commute)

lemma jsub_jsub: "jsub (jsub p d) t = jsub p (jadd d t)"
  by (cases p; cases d; cases t) (simp_all add: jsub_def)

lemma foldl_jadd_from: "foldl (\<lambda>total c. jadd total (f c)) a xs = jadd a (jsum (map f xs))"
proof (induction xs arbitrary: a)
  case Nil
  show ?case by (simp add: jsum_def)
next
  case (Cons x xs)
  have "foldl (\<lambda>total c. jadd total (f c)) a (x # xs) =
        jadd (jadd a (f x)) (jsum (map f xs))"
    by (simp add: Cons.IH)
  also have "\<dots> = jadd a (jsum (map f (x # xs)))"
    by (simp add: jadd_assoc jsum_def)
  finally show ?case .
qed

lemma foldl_jadd_jsum: "foldl (\<lambda>total c. jadd total (f c)) (Num 0) xs = jsum (map f xs)"
  by (simp add: foldl_jadd_from)

lemmas cost_defs =
  calculateMarginAtPrice_def calculateMinimumViablePrice_def calculateBreakEvenVolume_def
  calculateTotalCostPerUnit_def calculateTotalDirectCost_def calculateTotalTimeCost_def
  calculateAllocatedIndirectCost_def monthlyIndirectCosts_def monthlyCost_def
  newCostModel_def addDirectCost_def addIndirectCost_def addTimeCost_def
  setTargetMargin_def setExpectedVolume_def finiteCosts_def jsub_def signed_inf_def

lemma testCostModel_totals:
  "calculateTotalDirectCost testCostModel = Num 50"
  "calculateTotalTimeCost testCostModel = Num 600"
  "monthlyIndirectCosts testCostModel = Num 2000"
  "calculateAllocatedIndirectCost testCostModel = Num 100"
  "calculateTotalCostPerUnit testCostModel = Num 750"
  "calculateMinimumViablePrice testCostModel = Num (7500 / 7)"
  "finiteCosts testCostModel"
  "targetMargin testCostModel = Num (3 / 10)"
  "expectedVolume testCostModel = Num 20"
  by (simp_all add: testCostModel_def cost_defs)

lemma isFinite_iff: "isFinite x \<longleftrightarrow> (\<exists>a. x = Num a)"
  by (cases x) simp_all

lemma foldl_jadd_finite:
  assumes "list_all (\<lambda>c. isFinite (f c)) xs"
  shows "isFinite (foldl (\<lambda>total c. jadd total (f c)) (Num a) xs)"
  using assms
proof (induction xs arbitrary: a)
  case Nil
  show ?case by simp
next
  case (Cons x xs)
  from Cons.prems obtain b where b: "f x = Num b"
    by (auto simp: isFinite_iff)
  from Cons.prems have "list_all (\<lambda>c. isFinite (f c)) xs"
    by simp
  from Cons.IH [OF this, of "a + b"] show ?case
    by (simp add: b)
qed

lemma isFinite_jmul: "isFinite x \<Longrightarrow> isFinite y \<Longrightarrow> isFinite (jmul x y)"
  by (auto simp: isFinite_iff)

lemma isFinite_monthlyCost: "isFinite (ic_amount c) \<Longrightarrow> isFinite (monthlyCost c)"
  by (cases "ic_amount c") (simp_all add: monthlyCost_def)

lemma finite_totalDirect: "finiteCosts m \<Longrightarrow> isFinite (calculateTotalDirectCost m)"
  unfolding calculateTotalDirectCost_def finiteCosts_def
  by (intro foldl_jadd_finite) simp

lemma finite_totalTime: "finiteCosts m \<Longrightarrow> isFinite (calculateTotalTimeCost m)"
  unfolding calculateTotalTimeCost_def finiteCosts_def
  by (intro foldl_jadd_finite) (auto simp: list_all_iff isFinite_jmul)

lemma finite_monthly: "finiteCosts m \<Longrightarrow> isFinite (monthlyIndirectCosts m)"
  unfolding monthlyIndirectCosts_def finiteCosts_def
  by (intro foldl_jadd_finite) (auto simp: list_all_iff isFinite_monthlyCost)


section \<open>The margin at the minimum viable price\<close>




section \<open>The break-even volume\<close>

text \<open>
  C2: for every cost model and every price, \<open>calculateBreakEvenVolume\<close> is
  \<open>Infinity\<close> when the price is at most the total cost per unit, and otherwise the
  sum of the monthly-normalised indirect costs (a yearly cost counting for a twelfth of
  its amount) divided by the price less the total direct cost less the total time cost.
\<close>

theorem break_even_volume:
  "calculateBreakEvenVolume m price =
     (if jle price (calculateTotalCostPerUnit m) then PosInf
      else jdiv
        (jsum (map (\<lambda>c. if ic_period c = ''year'' then jdiv (ic_amount c) (Num 12)
                           else ic_amount c) (indirectCosts m)))
        (jsub (jsub price (calculateTotalDirectCost m)) (calculateTotalTimeCost m)))"
proof -
  have "monthlyIndirectCosts m =
        jsum (map (\<lambda>c. if ic_period c = ''year'' then jdiv (ic_amount c) (Num 12)
                         else ic_amount c) (indirectCosts m))"
    unfolding monthlyIndirectCosts_def monthlyCost_def by (rule foldl_jadd_jsum)
  then show ?thesis
    by (simp add: calculateBreakEvenVolume_def jsub_jsub)
qed

theorem break_even_volume_witness:
  "jle (Num 700) (calculateTotalCostPerUnit testCostModel) \<and>
   calculateBreakEvenVolume testCostModel (Num 700) = PosInf \<and>
   \<not> jle (Num 1200) (calculateTotalCostPerUnit testCostModel) \<and>
   calculateBreakEvenVolume testCostModel (Num 1200) = Num (40 / 11)"
  using break_even_volume [of testCostModel "Num 700"]
    break_even_volume [of testCostModel "Num 1200"]
  by (simp add: testCostModel_totals testCostModel_def cost_defs jsum_def)

section \<open>Facts used by the pricing theorems\<close>

lemma jmax_not_below: "\<not> jlt (jmax x y) y"
  by (cases x; cases y) (simp_all add: jmax_def)

lemma jmax_above: "\<not> isNaN (jmax x y) \<Longrightarrow> jle y (jmax x y)"
  by (cases x; cases y) (auto simp: jmax_def)

lemma testPricingModel_parts:
  "costModel testPricingModel = testCostModel"
  "map cp_price (competitors testPricingModel) = [Num 1000, Num 1200]"
  "marketPosition testPricingModel = MidMarket"
  "length (competitors testPricingModel) = 2"
  "map cp_overallValue (competitors testPricingModel) = [Num 5, Num 5]"
  "map vf_importance (valueFactors testPricingModel) = [Num 8, Num 6, Num 7]"
  "map vf_score (valueFactors testPricingModel) = [Num 9, Num 8, Num 7]"
  "length (valueFactors testPricingModel) = 3"
  by (simp_all add: testPricingModel_def addValueFactor_def addCompetitor_def newPricingModel_def
      calculateOverallValue_def)


lemma string_of_nat_1 [simp]: "string_of_nat (Suc 0) = ''1''"
  by (simp add: string_of_nat.simps [of "Suc 0"] digit_char_def)


section \<open>The competitor-indexed price\<close>

text \<open>
  C3: with no competitor \<open>calculateCompetitorIndexedPrice\<close> is the cost-plus price;
  otherwise it is the larger of the mean competitor price times the position multiplier
  (budget 0.85, mid-market 1, premium 1.25) and the minimum viable price. With at least
  one competitor it is never below the minimum viable price: it is not less than it, and
  unless it is \<open>NaN\<close> it is at least it.
\<close>

theorem competitor_indexed_price:
  "calculateCompetitorIndexedPrice m =
     (if competitors m = [] then calculateCostPlusPrice m (Num 1)
      else jmax
        (jmul (jdiv (jsum (map cp_price (competitors m)))
                 (Num (real (length (competitors m)))))
           (case marketPosition m of
              Budget \<Rightarrow> Num (85 / 100) | MidMarket \<Rightarrow> Num 1 | Premium \<Rightarrow> Num (125 / 100)))
        (calculateMinimumViablePrice (costModel m))) \<and>
   (competitors m \<noteq> [] \<longrightarrow>
      \<not> jlt (calculateCompetitorIndexedPrice m) (calculateMinimumViablePrice (costModel m)) \<and>
      (\<not> isNaN (calculateCompetitorIndexedPrice m) \<longrightarrow>
         jle (calculateMinimumViablePrice (costModel m)) (calculateCompetitorIndexedPrice m)))"
proof -
  have mult: "competitorMultipliers p =
      (case p of Budget \<Rightarrow> Num (85 / 100) | MidMarket \<Rightarrow> Num 1 | Premium \<Rightarrow> Num (125 / 100))"
    for p by (cases p) simp_all
  have eq: "calculateCompetitorIndexedPrice m =
     (if competitors m = [] then calculateCostPlusPrice m (Num 1)
      else jmax
        (jmul (jdiv (jsum (map cp_price (competitors m)))
                 (Num (real (length (competitors m)))))
           (case marketPosition m of
              Budget \<Rightarrow> Num (85 / 100) | MidMarket \<Rightarrow> Num 1 | Premium \<Rightarrow> Num (125 / 100)))
        (calculateMinimumViablePrice (costModel m)))"
    by (simp add: calculateCompetitorIndexedPrice_def foldl_jadd_jsum mult)
  show ?thesis
  proof (cases "competitors m = []")
    case True
    with eq show ?thesis by simp
  next
    case False
    with eq obtain b where "calculateCompetitorIndexedPrice m =
        jmax b (calculateMinimumViablePrice (costModel m))"
      by simp
    with False eq show ?thesis
      using jmax_not_below jmax_above by (simp del: isNaN.simps)
  qed
qed

theorem competitor_indexed_price_witness:
  "competitors testPricingModel \<noteq> [] \<and>
   calculateCompetitorIndexedPrice testPricingModel = Num 1100 \<and>
   calculateCompetitorIndexedPrice (snd (setMarketPosition ''budget'' testPricingModel)) =
     Num (7500 / 7) \<and>
   calculateMinimumViablePrice (costModel testPricingModel) = Num (7500 / 7) \<and>
   \<not> isNaN (calculateCompetitorIndexedPrice testPricingModel) \<and>
   jle (calculateMinimumViablePrice (costModel testPricingModel))
     (calculateCompetitorIndexedPrice testPricingModel) \<and>
   competitors (newPricingModel testCostModel) = [] \<and>
   calculateCompetitorIndexedPrice (newPricingModel testCostModel) =
     calculateCostPlusPrice (newPricingModel testCostModel) (Num 1)"
proof -
  have "competitors testPricingModel \<noteq> []"
    using testPricingModel_parts(2) by auto
  moreover have "competitors (snd (setMarketPosition ''budget'' testPricingModel)) =
      competitors testPricingModel"
    "costModel (snd (setMarketPosition ''budget'' testPricingModel)) = testCostModel"
    "marketPosition (snd (setMarketPosition ''budget'' testPricingModel)) = Budget"
    by (simp_all add: setMarketPosition_def position_of_string_def testPricingModel_parts)
  moreover have "competitors (newPricingModel testCostModel) = []"
    by (simp add: newPricingModel_def)
  ultimately show ?thesis
    using competitor_indexed_price [of testPricingModel]
      competitor_indexed_price [of "newPricingModel testCostModel"]
      competitor_indexed_price [of "snd (setMarketPosition ''budget'' testPricingModel)"]
    by (simp add: testPricingModel_parts testCostModel_totals jsum_def jmax_def)
qed


section \<open>The weighted elasticity\<close>





section \<open>Adding a segment on the 1-10 scale\<close>

text \<open>
  C6, amended: for every scale \<open>s\<close> from 1 to 10, \<open>PricingModel.addSegment\<close> appends
  a segment whose elasticity is \<open>-((s/10)*9.5 + 0.5)\<close>, a value between \<open>-10\<close> and
  \<open>-1.45\<close>; and every value between \<open>-10\<close> and \<open>-1.45\<close> is the elasticity stored for
  some scale from 1 to 10. So the scale 1-10 covers \<open>[-10, -1.45]\<close>.
\<close>

theorem add_segment_elasticity:
  "(1 \<le> s \<and> s \<le> 10 \<longrightarrow>
      (\<exists>ident m'. addSegment name sz (Num s) description m = (ident, m') \<and>
         segments (customerSegmentModel m') =
           segments (customerSegmentModel m) @
             [\<lparr>seg_id = ident, seg_name = name, seg_size = sz,
               seg_priceElasticity = Num (- ((s / 10) * (95 / 10) + 5 / 10)),
               seg_description = description\<rparr>]) \<and>
      - 10 \<le> - ((s / 10) * (95 / 10) + 5 / 10) \<and>
      - ((s / 10) * (95 / 10) + 5 / 10) \<le> - (145 / 100)) \<and>
   (- 10 \<le> e \<and> e \<le> - (145 / 100) \<longrightarrow>
      (\<exists>s'. 1 \<le> s' \<and> s' \<le> 10 \<and>
         seg_priceElasticity
           (last (segments (customerSegmentModel
              (snd (addSegment name sz (Num s') description m))))) = Num e))"
proof -
  have stored: "addSegment name sz (Num x) description m =
      (''seg_'' @ string_of_nat (nextId (customerSegmentModel m)),
       m\<lparr>customerSegmentModel := (customerSegmentModel m)
          \<lparr>segments := segments (customerSegmentModel m) @
             [\<lparr>seg_id = ''seg_'' @ string_of_nat (nextId (customerSegmentModel m)),
               seg_name = name, seg_size = sz,
               seg_priceElasticity = Num (- ((x / 10) * (95 / 10) + 5 / 10)),
               seg_description = description\<rparr>],
            nextId := nextId (customerSegmentModel m) + 1\<rparr>\<rparr>)" for x
    by (simp add: addSegment_def CustomerSegmentModel_addSegment_def Let_def)
  have cover: "\<exists>s'. 1 \<le> s' \<and> s' \<le> 10 \<and>
         seg_priceElasticity
           (last (segments (customerSegmentModel
              (snd (addSegment name sz (Num s') description m))))) = Num e"
    if "- 10 \<le> e" "e \<le> - (145 / 100)"
  proof (intro exI conjI)
    let ?s = "(- e - 5 / 10) * 10 / (95 / 10)"
    show "1 \<le> ?s" using that by (simp add: field_simps)
    show "?s \<le> 10" using that by (simp add: field_simps)
    show "seg_priceElasticity
           (last (segments (customerSegmentModel
              (snd (addSegment name sz (Num ?s) description m))))) = Num e"
      by (simp add: stored field_simps)
  qed
  show ?thesis
    using cover by (auto simp: stored field_simps)
qed

theorem add_segment_elasticity_witness:
  "(1::real) \<le> 3 \<and> (3::real) \<le> 10 \<and>
   addSegment ''Enterprise'' (Num 30) (Num 3) ''Large enterprise customers''
       (newPricingModel testCostModel) =
     (''seg_1'', (newPricingModel testCostModel)
        \<lparr>customerSegmentModel :=
           \<lparr>segments = [\<lparr>seg_id = ''seg_1'', seg_name = ''Enterprise'', seg_size = Num 30,
                         seg_priceElasticity = Num (- (335 / 100)),
                         seg_description = ''Large enterprise customers''\<rparr>],
            nextId = 2\<rparr>\<rparr>) \<and>
   (- 10 :: real) \<le> - 2 \<and> (- 2 :: real) \<le> - (145 / 100) \<and>
   (\<exists>s'. 1 \<le> s' \<and> s' \<le> 10 \<and>
         seg_priceElasticity
           (last (segments (customerSegmentModel
              (snd (addSegment ''Enterprise'' (Num 30) (Num s') ''Large enterprise customers''
                 (newPricingModel testCostModel)))))) = Num (- 2))"
  using add_segment_elasticity [of 3 "''Enterprise''" "Num 30" "''Large enterprise customers''"
      "newPricingModel testCostModel" "- 2"]
  by (simp add: addSegment_def CustomerSegmentModel_addSegment_def newPricingModel_def
      newCustomerSegmentModel_def Let_def)

text \<open>
  C6, as the spec states it, fails: the scale 1, the least of the range, is stored as
  \<open>-1.45\<close>, and no scale from 1 to 10 is stored as \<open>-0.5\<close>, the upper end of the
  range the spec gives.
\<close>

theorem add_segment_elasticity_counterexample:
  "seg_priceElasticity
     (last (segments (customerSegmentModel
        (snd (addSegment ''Startup'' (Num 20) (Num 1) [] (newPricingModel testCostModel))))))
     = Num (- (145 / 100)) \<and>
   \<not> (\<exists>s. 1 \<le> s \<and> s \<le> 10 \<and>
        seg_priceElasticity
          (last (segments (customerSegmentModel
             (snd (addSegment ''Startup'' (Num 20) (Num s) []
                (newPricingModel testCostModel))))))
        = Num (- (5 / 10)))"
  by (auto simp: addSegment_def CustomerSegmentModel_addSegment_def Let_def)

section \<open>Setting the market position\<close>

text \<open>
  C9: \<open>setMarketPosition\<close> with a position other than \<open>budget\<close>, \<open>mid-market\<close> and
  \<open>premium\<close> (for instance \<open>luxury\<close>) throws an error and leaves the pricing model,
  its \<open>marketPosition\<close> included, as it was; with each of the three accepted values it
  returns and sets \<open>marketPosition\<close> to that value, changing nothing else.
\<close>

theorem set_market_position:
  "(position \<notin> {''budget'', ''mid-market'', ''premium''} \<longrightarrow>
      (\<exists>msg. setMarketPosition position m = (Threw (Error msg), m))) \<and>
   setMarketPosition ''budget'' m = (Returned (), m\<lparr>marketPosition := Budget\<rparr>) \<and>
   setMarketPosition ''mid-market'' m = (Returned (), m\<lparr>marketPosition := MidMarket\<rparr>) \<and>
   setMarketPosition ''premium'' m = (Returned (), m\<lparr>marketPosition := Premium\<rparr>) \<and>
   (\<forall>p. position_name p \<in> {''budget'', ''mid-market'', ''premium''} \<and>
        marketPosition (snd (setMarketPosition (position_name p) m)) = p)"
proof -
  have "position \<notin> {''budget'', ''mid-market'', ''premium''} \<longrightarrow>
      (\<exists>msg. setMarketPosition position m = (Threw (Error msg), m))"
    by (simp add: setMarketPosition_def position_of_string_def)
  moreover have "\<forall>p. position_name p \<in> {''budget'', ''mid-market'', ''premium''} \<and>
        marketPosition (snd (setMarketPosition (position_name p) m)) = p"
  proof
    fix p show "position_name p \<in> {''budget'', ''mid-market'', ''premium''} \<and>
        marketPosition (snd (setMarketPosition (position_name p) m)) = p"
      by (cases p) (simp_all add: setMarketPosition_def position_of_string_def)
  qed
  ultimately show ?thesis
    by (simp add: setMarketPosition_def position_of_string_def)
qed

theorem set_market_position_witness:
  "''luxury'' \<notin> {''budget'', ''mid-market'', ''premium''} \<and>
   snd (setMarketPosition ''luxury'' testPricingModel) = testPricingModel \<and>
   marketPosition (snd (setMarketPosition ''luxury'' testPricingModel)) = MidMarket \<and>
   fst (setMarketPosition ''luxury'' testPricingModel) \<noteq> Returned ()"
  using set_market_position [of "''luxury''" testPricingModel]
  by (auto simp: testPricingModel_parts)

section \<open>Facts about rounding and the test model\<close>

lemma round2_near:
  fixes b :: real
  shows "\<bar>real_of_int \<lfloor>b * 100 + 1 / 2\<rfloor> / 100 - b\<bar> \<le> 1 / 200"
proof -
  define k where "k = real_of_int \<lfloor>b * 100 + 1 / 2\<rfloor>"
  have "k \<le> b * 100 + 1 / 2"
    unfolding k_def by (rule of_int_floor_le)
  moreover have "b * 100 + 1 / 2 < k + 1"
    unfolding k_def by linarith
  ultimately have "\<bar>k / 100 - b\<bar> \<le> 1 / 200"
    by linarith
  then show ?thesis
    by (simp only: k_def)
qed

lemma testPricingModel_lists:
  "valueFactors testPricingModel =
     [\<lparr>vf_name = ''Quality'', vf_importance = Num 8, vf_score = Num 9\<rparr>,
      \<lparr>vf_name = ''Support'', vf_importance = Num 6, vf_score = Num 8\<rparr>,
      \<lparr>vf_name = ''Features'', vf_importance = Num 7, vf_score = Num 7\<rparr>]"
  "competitors testPricingModel =
     [\<lparr>cp_name = ''Competitor A'', cp_price = Num 1000, cp_attributes = [],
       cp_overallValue = Num 5\<rparr>,
      \<lparr>cp_name = ''Competitor B'', cp_price = Num 1200, cp_attributes = [],
       cp_overallValue = Num 5\<rparr>]"
  by (simp_all add: testPricingModel_def addValueFactor_def addCompetitor_def newPricingModel_def
      calculateOverallValue_def)

lemma testPricingModel_prices:
  "calculateCostPlusPrice testPricingModel (Num 1) = Num (7500 / 7)"
  "calculateCompetitorIndexedPrice testPricingModel = Num 1100"
  "calculateValueBasedPrice testPricingModel = Num (37180 / 21)"
  by (simp_all add: calculateCostPlusPrice_def calculateCompetitorIndexedPrice_def
      calculateValueBasedPrice_def testPricingModel_parts testPricingModel_lists
      testCostModel_totals jmax_def Let_def)

lemma jlt_not_jle: "jlt a b \<Longrightarrow> \<not> jle b a"
  by (cases a; cases b) simp_all

lemma margin_differs:
  assumes c: "calculateTotalCostPerUnit cm = Num c" and "c \<noteq> 0" and "x \<noteq> x'"
  shows "calculateMarginAtPrice cm (Num x) \<noteq> calculateMarginAtPrice cm (Num x')"
proof -
  have at: "calculateMarginAtPrice cm (Num y) =
      (if y = 0 then signed_inf (- c) else Num ((y - c) / y))" for y
    by (simp add: calculateMarginAtPrice_def c jsub_def)
  have inf: "signed_inf (- c) \<noteq> Num z" for z
    using \<open>c \<noteq> 0\<close> by (simp add: signed_inf_def)
  have both: "Num ((x - c) / x) \<noteq> Num ((x' - c) / x')" if "x \<noteq> 0" "x' \<noteq> 0"
  proof
    assume "Num ((x - c) / x) = Num ((x' - c) / x')"
    then have "(x - c) / x = (x' - c) / x'"
      by (simp only: jsnum.inject)
    with that have "(x - c) * x' = (x' - c) * x"
      by (simp add: frac_eq_eq)
    then have "x' = x"
      using \<open>c \<noteq> 0\<close> by (auto simp: algebra_simps)
    with \<open>x \<noteq> x'\<close> show False by simp
  qed
  show ?thesis
  proof (cases "x = 0 \<or> x' = 0")
    case True
    with inf inf [symmetric] \<open>x \<noteq> x'\<close> show ?thesis
      unfolding at by auto
  next
    case False
    with both show ?thesis
      unfolding at by simp
  qed
qed

lemma break_even_differs:
  assumes eqs: "calculateTotalDirectCost cm = Num d" "calculateTotalTimeCost cm = Num t"
      "monthlyIndirectCosts cm = Num i"
    and "i \<noteq> 0" and "x \<noteq> x'"
    and above: "\<not> jle (Num x) (calculateTotalCostPerUnit cm)"
      "\<not> jle (Num x') (calculateTotalCostPerUnit cm)"
  shows "calculateBreakEvenVolume cm (Num x) \<noteq> calculateBreakEvenVolume cm (Num x')"
proof -
  have at: "calculateBreakEvenVolume cm (Num y) =
      (if y - (d + t) = 0 then signed_inf i else Num (i / (y - (d + t))))"
    if "\<not> jle (Num y) (calculateTotalCostPerUnit cm)" for y
    using that by (simp add: calculateBreakEvenVolume_def eqs jsub_def)
  have inf: "signed_inf i \<noteq> Num z" for z
    using \<open>i \<noteq> 0\<close> by (simp add: signed_inf_def)
  have both: "Num (i / (x - (d + t))) \<noteq> Num (i / (x' - (d + t)))"
    if "x - (d + t) \<noteq> 0" "x' - (d + t) \<noteq> 0"
  proof
    assume "Num (i / (x - (d + t))) = Num (i / (x' - (d + t)))"
    then have "i / (x - (d + t)) = i / (x' - (d + t))"
      by (simp only: jsnum.inject)
    with that have "x' = x"
      using \<open>i \<noteq> 0\<close> by (auto simp: frac_eq_eq algebra_simps)
    with \<open>x \<noteq> x'\<close> show False by simp
  qed
  show ?thesis
  proof (cases "x - (d + t) = 0 \<or> x' - (d + t) = 0")
    case True
    with inf inf [symmetric] \<open>x \<noteq> x'\<close> show ?thesis
      unfolding at [OF above(1)] at [OF above(2)] by auto
  next
    case False
    with both show ?thesis
      unfolding at [OF above(1)] at [OF above(2)] by simp
  qed
qed

lemma testPricingModel_costPlus:
  "strategyPrice testPricingModel ''cost-plus'' = Num (7500 / 7)"
  "costModel testPricingModel = testCostModel"
  by (simp_all add: strategyPrice_def calculateCostPlusPrice_def testPricingModel_def
      addValueFactor_def addCompetitor_def newPricingModel_def testCostModel_totals)

section \<open>The optimal recommendation\<close>

text \<open>
  C4: the price of the \<open>optimal\<close> recommendation is 0.4 times the cost-plus price plus
  0.3 times the competitor-indexed price plus 0.3 times the value-based price, rounded
  to two decimals: multiplied by 100, rounded to the nearest integer and divided by 100.
  When the blend is a finite number, the price is a whole number of hundredths at most
  half a hundredth away from it.
\<close>

theorem optimal_recommendation_price:
  "rec_price (getPriceRecommendation m ''optimal'') =
     jdiv (jround (jmul
       (jadd (jadd (jmul (Num (4 / 10)) (calculateCostPlusPrice m (Num 1)))
                (jmul (Num (3 / 10)) (calculateCompetitorIndexedPrice m)))
          (jmul (Num (3 / 10)) (calculateValueBasedPrice m)))
       (Num 100))) (Num 100) \<and>
   (\<forall>b. jadd (jadd (jmul (Num (4 / 10)) (calculateCostPlusPrice m (Num 1)))
                (jmul (Num (3 / 10)) (calculateCompetitorIndexedPrice m)))
          (jmul (Num (3 / 10)) (calculateValueBasedPrice m)) = Num b \<longrightarrow>
      (\<exists>k::int. rec_price (getPriceRecommendation m ''optimal'') = Num (real_of_int k / 100) \<and>
         \<bar>real_of_int k / 100 - b\<bar> \<le> 1 / 200))"
proof -
  let ?blend = "jadd (jadd (jmul (Num (4 / 10)) (calculateCostPlusPrice m (Num 1)))
                (jmul (Num (3 / 10)) (calculateCompetitorIndexedPrice m)))
          (jmul (Num (3 / 10)) (calculateValueBasedPrice m))"
  have sp: "strategyPrice m ''optimal'' = ?blend"
    by (simp add: strategyPrice_def jmul_commute)
  have eq: "rec_price (getPriceRecommendation m ''optimal'') =
      jdiv (jround (jmul ?blend (Num 100))) (Num 100)"
    by (simp add: getPriceRecommendation_def sp Let_def)
  have "\<exists>k::int. rec_price (getPriceRecommendation m ''optimal'') = Num (real_of_int k / 100) \<and>
         \<bar>real_of_int k / 100 - b\<bar> \<le> 1 / 200" if "?blend = Num b" for b
  proof (intro exI conjI)
    show "rec_price (getPriceRecommendation m ''optimal'') =
        Num (real_of_int \<lfloor>b * 100 + 1 / 2\<rfloor> / 100)"
      unfolding eq that by simp
    show "\<bar>real_of_int \<lfloor>b * 100 + 1 / 2\<rfloor> / 100 - b\<bar> \<le> 1 / 200"
      by (rule round2_near)
  qed
  with eq show ?thesis by blast
qed

theorem optimal_recommendation_price_witness:
  "jadd (jadd (jmul (Num (4 / 10)) (calculateCostPlusPrice testPricingModel (Num 1)))
                (jmul (Num (3 / 10)) (calculateCompetitorIndexedPrice testPricingModel)))
          (jmul (Num (3 / 10)) (calculateValueBasedPrice testPricingModel)) = Num (9028 / 7) \<and>
   rec_price (getPriceRecommendation testPricingModel ''optimal'') = Num (128971 / 100) \<and>
   \<bar>128971 / 100 - 9028 / (7::real)\<bar> \<le> 1 / 200"
  using optimal_recommendation_price [of testPricingModel]
  by (simp add: testPricingModel_prices)

section \<open>The recommendation is computed from the unrounded price\<close>

text \<open>
  C10: for every pricing model and strategy, the recommendation's price is the
  strategy's price rounded to two decimals, while its margin and its break-even volume
  are computed from the unrounded price. So when rounding changed a finite price, the
  margin differs from the margin at the recommended price as soon as the total cost per
  unit is a finite number other than zero, and the break-even volume differs from the
  one at the recommended price as soon as the costs are finite, the monthly indirect
  costs are not zero and both prices are above the total cost per unit.
\<close>

theorem recommendation_from_unrounded_price:
  "(let r = getPriceRecommendation m strategy;
        p = strategyPrice m strategy;
        cm = costModel m
    in rec_price r = jdiv (jround (jmul p (Num 100))) (Num 100) \<and>
       rec_margin r = calculateMarginAtPrice cm p \<and>
       rec_breakEvenVolume r = calculateBreakEvenVolume cm p \<and>
       (isFinite p \<and> rec_price r \<noteq> p \<and> isFinite (calculateTotalCostPerUnit cm) \<and>
        calculateTotalCostPerUnit cm \<noteq> Num 0 \<longrightarrow>
          rec_margin r \<noteq> calculateMarginAtPrice cm (rec_price r)) \<and>
       (isFinite p \<and> rec_price r \<noteq> p \<and> finiteCosts cm \<and>
        monthlyIndirectCosts cm \<noteq> Num 0 \<and>
        jlt (calculateTotalCostPerUnit cm) p \<and>
        jlt (calculateTotalCostPerUnit cm) (rec_price r) \<longrightarrow>
          rec_breakEvenVolume r \<noteq> calculateBreakEvenVolume cm (rec_price r)))"
proof -
  define r where "r = getPriceRecommendation m strategy"
  define p where "p = strategyPrice m strategy"
  define cm where "cm = costModel m"
  have fields: "rec_price r = jdiv (jround (jmul p (Num 100))) (Num 100)"
    "rec_margin r = calculateMarginAtPrice cm p"
    "rec_breakEvenVolume r = calculateBreakEvenVolume cm p"
    by (simp_all add: r_def p_def cm_def getPriceRecommendation_def Let_def)
  have m: "rec_margin r \<noteq> calculateMarginAtPrice cm (rec_price r)"
    if "isFinite p" "rec_price r \<noteq> p" "isFinite (calculateTotalCostPerUnit cm)"
      "calculateTotalCostPerUnit cm \<noteq> Num 0"
  proof -
    from that obtain x c where x: "p = Num x" and c: "calculateTotalCostPerUnit cm = Num c"
      by (auto simp: isFinite_iff)
    from that(4) c have "c \<noteq> 0" by simp
    have rp: "rec_price r = Num (real_of_int \<lfloor>x * 100 + 1 / 2\<rfloor> / 100)"
      by (simp add: fields x)
    with that(2) x have "x \<noteq> real_of_int \<lfloor>x * 100 + 1 / 2\<rfloor> / 100"
      by auto
    from margin_differs [OF c \<open>c \<noteq> 0\<close> this] show ?thesis
      unfolding fields(2) x rp .
  qed
  have b: "rec_breakEvenVolume r \<noteq> calculateBreakEvenVolume cm (rec_price r)"
    if hyps: "isFinite p" "rec_price r \<noteq> p" "finiteCosts cm"
      "monthlyIndirectCosts cm \<noteq> Num 0"
      "jlt (calculateTotalCostPerUnit cm) p" "jlt (calculateTotalCostPerUnit cm) (rec_price r)"
  proof -
    from hyps(1) obtain x where x: "p = Num x"
      by (auto simp: isFinite_iff)
    obtain d t i where eqs: "calculateTotalDirectCost cm = Num d"
      "calculateTotalTimeCost cm = Num t" "monthlyIndirectCosts cm = Num i"
      using finite_totalDirect [OF hyps(3)] finite_totalTime [OF hyps(3)]
        finite_monthly [OF hyps(3)]
      by (auto simp: isFinite_iff)
    from hyps(4) eqs have "i \<noteq> 0" by simp
    have rp: "rec_price r = Num (real_of_int \<lfloor>x * 100 + 1 / 2\<rfloor> / 100)"
      by (simp add: fields x)
    with hyps(2) x have ne: "x \<noteq> real_of_int \<lfloor>x * 100 + 1 / 2\<rfloor> / 100"
      by auto
    have "\<not> jle (Num x) (calculateTotalCostPerUnit cm)"
      "\<not> jle (Num (real_of_int \<lfloor>x * 100 + 1 / 2\<rfloor> / 100)) (calculateTotalCostPerUnit cm)"
      using hyps(5,6) jlt_not_jle unfolding x rp by blast+
    from break_even_differs [OF eqs \<open>i \<noteq> 0\<close> ne this] show ?thesis
      unfolding fields(3) x rp .
  qed
  from fields m b show ?thesis
    unfolding Let_def r_def p_def cm_def by blast
qed

theorem recommendation_from_unrounded_price_witness:
  "strategyPrice testPricingModel ''cost-plus'' = Num (7500 / 7) \<and>
   rec_price (getPriceRecommendation testPricingModel ''cost-plus'') = Num (107143 / 100) \<and>
   rec_margin (getPriceRecommendation testPricingModel ''cost-plus'') = Num (3 / 10) \<and>
   calculateMarginAtPrice testCostModel (Num (107143 / 100)) = Num (32143 / 107143) \<and>
   rec_breakEvenVolume (getPriceRecommendation testPricingModel ''cost-plus'') =
     Num (280 / 59) \<and>
   calculateBreakEvenVolume testCostModel (Num (107143 / 100)) = Num (200000 / 42143) \<and>
   finiteCosts testCostModel \<and>
   monthlyIndirectCosts testCostModel = Num 2000 \<and>
   calculateTotalCostPerUnit testCostModel = Num 750"
  using recommendation_from_unrounded_price [of testPricingModel "''cost-plus''"]
  by (simp add: testPricingModel_costPlus testCostModel_totals Let_def
      calculateMarginAtPrice_def calculateBreakEvenVolume_def jsub_def)

section \<open>Facts about the storage functions\<close>

lemma distinct_STORAGE_KEYS: "distinct (map snd STORAGE_KEYS)" "distinct (map fst STORAGE_KEYS)"
  by (simp_all add: STORAGE_KEYS_def)

lemma map_of_STORAGE_KEYS:
  "(name, k) \<in> set STORAGE_KEYS \<Longrightarrow> STORAGE_KEYS_get name = Some k"
  by (simp add: STORAGE_KEYS_get_def map_of_is_SomeI [OF distinct_STORAGE_KEYS(2)])

lemma importEntry_category:
  "STORAGE_KEYS_get name = Some sk \<Longrightarrow>
   importEntry t (name, v) = (if v \<noteq> JNull then t(sk \<mapsto> Json v) else t)"
  by (simp add: importEntry_def saveToStorage_def setItem_def JSON_stringify_def)


lemma get_constructor: "STORAGE_KEYS_get ''constructor'' = Some ''function Object() { [native code] }''"
  by (simp add: STORAGE_KEYS_get_def STORAGE_KEYS_def Object_prototype_def)

lemma import_malformed: "importAllData (NotJson t) store = (False, store)"
  by (simp add: importAllData_def JSON_parse_def)

lemma import_object:
  "importAllData (Json (JObj kvs)) store = (True, foldl importEntry store kvs)"
  by (simp add: importAllData_def JSON_parse_def)






lemma import_null: "importAllData (Json JNull) store = (False, store)"
  by (simp add: importAllData_def JSON_parse_def)

lemma import_ignores_unknown_keys:
  assumes "list_all (\<lambda>(key, data). STORAGE_KEYS_get key = None) kvs"
  shows "importAllData (Json (JObj kvs)) store = (True, store)"
proof -
  from assms have "foldl importEntry store kvs = store"
    by (induction kvs arbitrary: store) (auto simp: importEntry_def)
  then show ?thesis
    by (simp add: import_object)
qed

lemma category_keys_not_inherited:
  "set (map snd STORAGE_KEYS) \<inter> set (map snd Object_prototype) = {}"
  by (simp add: STORAGE_KEYS_def Object_prototype_def)

lemma STORAGE_KEYS_get_category:
  assumes "STORAGE_KEYS_get key = Some sk" and "(name, sk) \<in> set STORAGE_KEYS"
  shows "key = name"
proof (cases "map_of STORAGE_KEYS key")
  case None
  with assms(1) have "map_of Object_prototype key = Some sk"
    by (simp add: STORAGE_KEYS_get_def)
  then have "sk \<in> set (map snd Object_prototype)"
    by (force dest: map_of_SomeD)
  moreover from assms(2) have "sk \<in> set (map snd STORAGE_KEYS)"
    by force
  ultimately show ?thesis
    using category_keys_not_inherited by blast
next
  case (Some sk')
  with assms(1) have "sk' = sk"
    by (simp add: STORAGE_KEYS_get_def)
  with Some have "(key, sk) \<in> set STORAGE_KEYS"
    by (auto dest: map_of_SomeD)
  with assms(2) show ?thesis
    using distinct_STORAGE_KEYS(1) by (metis distinct_map old.prod.inject inj_on_def snd_conv)
qed

lemma importEntry_other:
  assumes "(name, sk) \<in> set STORAGE_KEYS" and "key \<noteq> name"
  shows "importEntry store (key, v) sk = store sk"
proof (cases "STORAGE_KEYS_get key")
  case None
  then show ?thesis by (simp add: importEntry_def)
next
  case (Some sk')
  with assms STORAGE_KEYS_get_category have "sk' \<noteq> sk" by blast
  with Some show ?thesis
    by (simp add: importEntry_def saveToStorage_def setItem_def)
qed

lemma import_category:
  assumes "distinct (map fst kvs)" and cat: "(name, sk) \<in> set STORAGE_KEYS"
  shows "snd (importAllData (Json (JObj kvs)) store) sk =
     (case map_of kvs name of
        Some v \<Rightarrow> if v \<noteq> JNull then Some (Json v) else store sk
      | None \<Rightarrow> store sk)"
proof -
  have get: "STORAGE_KEYS_get name = Some sk"
    using cat by (rule map_of_STORAGE_KEYS)
  have "foldl importEntry store kvs sk =
     (case map_of kvs name of
        Some v \<Rightarrow> if v \<noteq> JNull then Some (Json v) else store sk
      | None \<Rightarrow> store sk)"
    using assms(1)
  proof (induction kvs arbitrary: store)
    case Nil
    show ?case by simp
  next
    case (Cons e kvs)
    obtain key v where e: "e = (key, v)" by (cases e)
    from Cons.prems have d: "distinct (map fst kvs)" by simp
    show ?case
    proof (cases "key = name")
      case True
      with Cons.prems e have "map_of kvs name = None"
        by (auto simp: map_of_eq_None_iff)
      with True show ?thesis
        by (simp add: e Cons.IH [OF d] importEntry_category [OF get])
    next
      case False
      from importEntry_other [OF cat False] have "importEntry store (key, v) sk = store sk" .
      with False show ?thesis
        by (simp add: e Cons.IH [OF d] split: option.splits)
    qed
  qed
  then show ?thesis
    by (simp add: import_object)
qed

section \<open>Importing a document\<close>

text \<open>
  C7 describes \<open>importAllData\<close> rightly but for one case. A document that does not
  parse is refused and nothing is written (\<open>import_malformed\<close>); the content of a
  category is overwritten when the document has it and it is not \<open>null\<close>, and stays
  otherwise (\<open>import_category\<close>); a document none of whose keys the key table resolves
  leaves the store as it was (\<open>import_ignores_unknown_keys\<close>). The case missed is a key
  that is no category but names a member the key table inherits, such as
  \<open>constructor\<close>: the lookup finds it, and an entry is written under the string that
  stands for the inherited value. The theorem evaluates the import of the document
  \<open>{"constructor": 1}\<close> into an empty store.
\<close>

theorem import_inherited_key:
  "importAllData (Json (JObj [(''constructor'', JNum 1)])) Map.empty =
     (True, [''function Object() { [native code] }'' \<mapsto> Json (JNum 1)])"
  by (simp add: importAllData_def JSON_parse_def importEntry_def get_constructor
      saveToStorage_def setItem_def JSON_stringify_def)

section \<open>Export followed by import\<close>



end
